theory Spec2Isabelle
  imports Main "HOL-Library.Sublist" "HOL-Library.Word"
begin

section \<open>Errors\<close>

text \<open>
  A Go \<open>error\<close> is modelled as \<open>go_error option\<close>: \<open>None\<close> is \<open>nil\<close>.
  The constructors separate the origins an error of \<open>bulk.go\<close> can have:
  \<^item> \<open>Errorf msg\<close>: an error made by \<open>fmt.Errorf\<close>, with its rendered text;
  \<^item> \<open>ContextError e\<close>: what \<open>ctx.Err()\<close> returns once the context is done;
  \<^item> \<open>TimeParseError layout value layoutElem valueElem message\<close>: the
    \<open>*time.ParseError\<close> of \<open>time.Parse\<close>, with its five fields;
  \<^item> \<open>Joined es\<close>: the result of \<open>errors.Join\<close>;
  \<^item> \<open>External msg\<close>: an error handed back by a collaborator outside \<open>bulk.go\<close>
    (the transport, \<open>http.NewRequest\<close>, the JSON decoder, a body read,
    \<open>ParseSalesforceError\<close>).
\<close>

datatype ctx_error = Canceled | DeadlineExceeded

datatype parse_message =
    NoMessage
  | OutOfRange string
  | ExtraText string
  | DayOutOfRange

datatype go_error =
    Errorf string
  | ContextError ctx_error
  | TimeParseError string string string string parse_message
  | Joined "go_error list"
  | External string

section \<open>Job states\<close>

text \<open>\<open>type JobStateEnum string\<close>: any string is a value of the type; five are named.\<close>

type_synonym JobStateEnum = string

definition UploadComplete :: JobStateEnum where "UploadComplete = ''UploadComplete''"
definition InProgress :: JobStateEnum where "InProgress = ''InProgress''"
definition Aborted :: JobStateEnum where "Aborted = ''Aborted''"
definition JobComplete :: JobStateEnum where "JobComplete = ''JobComplete''"
definition Failed :: JobStateEnum where "Failed = ''Failed''"

definition IsFinished :: "JobStateEnum \<Rightarrow> bool" where
  "IsFinished j \<longleftrightarrow> j = JobComplete \<or> j = Failed \<or> j = Aborted"

definition ToError :: "JobStateEnum \<Rightarrow> go_error option" where
  "ToError j =
     (if j = Aborted then Some (Errorf ''job aborted'')
      else if j = Failed then Some (Errorf ''job failed'')
      else None)"

section \<open>Collaborators outside \<open>bulk.go\<close>\<close>

text \<open>
  \<open>bulk.go\<close> talks to the world through its \<open>*Client\<close> (\<open>makeURL\<close>,
  \<open>httpRequest\<close>, \<open>httpClient.Do\<close>, \<open>sessionID\<close>), through \<open>http.NewRequest\<close>,
  \<open>json.Unmarshal\<close> and \<open>ParseSalesforceError\<close>, none of which is defined in this
  file. They are parameters of the model, collected in the record \<open>env\<close>. The two
  functions that reach the server are indexed by the number of requests issued before,
  so that a server (or a mock) may answer the same request differently over time.
\<close>

record Client =
  sessionID :: string

record http_request =
  req_Method :: string
  req_URL :: string
  req_Header :: "(string \<times> string) list"

text \<open>
  A response body is a reader: \<open>body_data\<close> is what can be read from it and
  \<open>body_err\<close> the error the read ends with, if any (\<open>None\<close> is a clean EOF).
  \<open>resp_Header_Get k\<close> is the value of \<open>resp.Header.Get(k)\<close>, the empty string when
  the response has no header \<open>k\<close>.
\<close>

record body_reader =
  body_data :: string
  body_err :: "string option"

record http_response =
  resp_StatusCode :: int
  resp_Status :: string
  resp_ContentLength :: int
  resp_Header_Get :: "string \<Rightarrow> string"
  resp_Body :: body_reader

record BulkJobStatus =
  State :: JobStateEnum
  NumberRecordsProcessed :: int
  Retries :: int
  TotalProcessingTimeMilliseconds :: int

record env =
  makeURL :: "Client \<Rightarrow> string \<Rightarrow> string"
  httpRequest :: "nat \<Rightarrow> Client \<Rightarrow> string \<Rightarrow> string \<Rightarrow> string + string"
  httpClient_Do :: "nat \<Rightarrow> Client \<Rightarrow> http_request \<Rightarrow> string + http_response"
  NewRequest_error :: "string \<Rightarrow> string \<Rightarrow> string option"
  json_Unmarshal :: "string \<Rightarrow> string + BulkJobStatus"
  ParseSalesforceError :: "int \<Rightarrow> string \<Rightarrow> go_error option"

text \<open>
  What a call does to the world: the requests it hands to the transport, in order, and
  the durations (in nanoseconds) it sleeps.
\<close>

datatype http_call =
    ClientRequest string string
  | DoRequest http_request

record world =
  issued :: "http_call list"
  slept :: "int list"

definition Second :: int where
  "Second = 1000000000"

definition time_Sleep :: "int \<Rightarrow> world \<Rightarrow> world" where
  "time_Sleep d w = w\<lparr>slept := slept w @ [d]\<rparr>"

text \<open>\<open>http.NewRequest(method, url, nil)\<close>: an error, or a request with no header yet.\<close>

definition NewRequest :: "env \<Rightarrow> string \<Rightarrow> string \<Rightarrow> go_error + http_request" where
  "NewRequest e method url =
     (case NewRequest_error e method url of
        Some msg \<Rightarrow> Inl (External msg)
      | None \<Rightarrow> Inr \<lparr>req_Method = method, req_URL = url, req_Header = []\<rparr>)"

definition Header_Add :: "string \<Rightarrow> string \<Rightarrow> http_request \<Rightarrow> http_request" where
  "Header_Add k v req = req\<lparr>req_Header := req_Header req @ [(k, v)]\<rparr>"

text \<open>\<open>io.ReadAll\<close> returns what it could read together with the error.\<close>

definition io_ReadAll :: "body_reader \<Rightarrow> string \<times> go_error option" where
  "io_ReadAll r = (body_data r, map_option External (body_err r))"

text \<open>\<open>errors.Join(sfErr, err)\<close> at its only call site, where \<open>err\<close> is not nil:
  the nil argument is dropped.\<close>

definition errors_Join :: "go_error option \<Rightarrow> go_error \<Rightarrow> go_error" where
  "errors_Join sfErr err =
     Joined (case sfErr of None \<Rightarrow> [err] | Some s \<Rightarrow> [s, err])"

section \<open>\<open>strconv.Atoi\<close>\<close>

text \<open>
  The standard library's \<open>strconv.Atoi\<close> on a platform whose \<open>int\<close> has 64 bits:
  the fast path for 1 to 18 bytes, and \<open>ParseInt(s, 10, 0)\<close> with \<open>ParseUint\<close> for
  the rest. On a range error both return the largest magnitude of the type together
  with the error. Bytes are \<open>char\<close>s; \<open>byte_sub c k\<close> is the byte \<open>c - k\<close>, wrapping;
  a \<open>uint64\<close> is an \<open>int\<close> reduced modulo \<open>2 ^ 64\<close>.
\<close>

datatype num_error = ErrSyntax | ErrRange

definition byte_sub :: "char \<Rightarrow> nat \<Rightarrow> nat" where
  "byte_sub c k = (of_char c + 256 - k) mod 256"

definition is_digit :: "char \<Rightarrow> bool" where
  "is_digit c \<longleftrightarrow> (48::nat) \<le> of_char c \<and> (of_char c :: nat) \<le> 57"

definition intSize :: nat where
  "intSize = 64"

fun Atoi_fast :: "string \<Rightarrow> int \<Rightarrow> int option" where
  "Atoi_fast [] n = Some n"
| "Atoi_fast (ch # s) n =
     (if byte_sub ch 48 > 9 then None
      else Atoi_fast s (n * 10 + int (byte_sub ch 48)))"

definition ParseUint_cutoff :: int where
  "ParseUint_cutoff = (2 ^ 64 - 1) div 10 + 1"

definition ParseUint_maxVal :: int where
  "ParseUint_maxVal = 2 ^ intSize - 1"

fun ParseUint_loop :: "string \<Rightarrow> int \<Rightarrow> int \<times> num_error option" where
  "ParseUint_loop [] n = (n, None)"
| "ParseUint_loop (c # s) n =
     (if \<not> is_digit c then (0, Some ErrSyntax)
      else if n \<ge> ParseUint_cutoff then (ParseUint_maxVal, Some ErrRange)
      else
        (let n10 = (n * 10) mod 2 ^ 64;
             n1 = (n10 + int (byte_sub c 48)) mod 2 ^ 64
         in if n1 < n10 \<or> n1 > ParseUint_maxVal then (ParseUint_maxVal, Some ErrRange)
            else ParseUint_loop s n1))"

definition ParseUint :: "string \<Rightarrow> int \<times> num_error option" where
  "ParseUint s = (if s = [] then (0, Some ErrSyntax) else ParseUint_loop s 0)"

definition ParseInt :: "string \<Rightarrow> int \<times> num_error option" where
  "ParseInt s0 =
     (if s0 = [] then (0, Some ErrSyntax)
      else
        (let neg = (hd s0 = CHR ''-'');
             s = (if hd s0 = CHR ''+'' \<or> hd s0 = CHR ''-'' then tl s0 else s0);
             (un, err) = ParseUint s;
             cutoff = (2::int) ^ (intSize - 1)
         in if err = Some ErrSyntax then (0, err)
            else if \<not> neg \<and> un \<ge> cutoff then (cutoff - 1, Some ErrRange)
            else if neg \<and> un > cutoff then (- cutoff, Some ErrRange)
            else (if neg then - un else un, None)))"

definition Atoi :: "string \<Rightarrow> int \<times> num_error option" where
  "Atoi s0 =
     (if 0 < length s0 \<and> length s0 < 19 then
        (let signed = (hd s0 = CHR ''-'' \<or> hd s0 = CHR ''+'');
             s = (if signed then tl s0 else s0)
         in if signed \<and> length s < 1 then (0, Some ErrSyntax)
            else (case Atoi_fast s 0 of
                    None \<Rightarrow> (0, Some ErrSyntax)
                  | Some n \<Rightarrow> (if hd s0 = CHR ''-'' then - n else n, None)))
      else ParseInt s0)"

section \<open>Timestamps\<close>

text \<open>
  A \<open>time.Time\<close> is an instant and a location. The instant is \<open>t_sec\<close> seconds and
  \<open>t_nsec\<close> nanoseconds after January 1 of year 1, 00:00:00 UTC, which makes the zero
  value of the type the record of three zeros; of the location only the offset from
  UTC in seconds is kept. \<open>Equal\<close> compares instants and ignores the location.
\<close>

record go_time =
  t_sec :: int
  t_nsec :: int
  t_offset :: int

definition zero_time :: go_time where
  "zero_time = \<lparr>t_sec = 0, t_nsec = 0, t_offset = 0\<rparr>"

definition Equal :: "go_time \<Rightarrow> go_time \<Rightarrow> bool" where
  "Equal a b \<longleftrightarrow> t_sec a = t_sec b \<and> t_nsec a = t_nsec b"

record SalesforceTime =
  Time :: go_time

subsection \<open>\<open>time.Parse\<close> for the layout of \<open>UnmarshalJSON\<close>\<close>

text \<open>
  \<open>UnmarshalJSON\<close> calls the standard library's \<open>time.Parse\<close> with one fixed layout.
  \<open>time.Parse\<close> cuts the layout into literal prefixes and standard chunks
  (\<open>nextStdChunk\<close>) and consumes the value chunk by chunk. The model follows that
  loop, with the cut of this layout written down as \<open>layout_chunks\<close> and
  \<open>layout_tail\<close>; the helpers \<open>isDigit\<close>, \<open>getnum\<close>, \<open>leadingInt\<close>, \<open>atoi\<close>,
  \<open>skip\<close>, \<open>parseNanoseconds\<close>, \<open>isLeap\<close>, \<open>daysIn\<close> and \<open>Date\<close> are the
  library's functions of these names. An error flag \<open>True\<close> stands for \<open>errBad\<close>
  (or \<open>errAtoi\<close>, \<open>errLeadingInt\<close>), which \<open>Parse\<close> never hands out: it turns
  every failure into a \<open>*ParseError\<close>. The message of a \<open>ParseError\<close> is kept as a
  \<open>parse_message\<close>, not rendered.
\<close>

definition layout :: string where
  "layout = [CHR 0x22] @ ''2006-01-02T15:04:05.000-0700'' @ [CHR 0x22]"

datatype std_chunk =
    stdLongYear
  | stdZeroMonth
  | stdZeroDay
  | stdHour
  | stdZeroMinute
  | stdZeroSecond
  | stdFracSecond0 nat
  | stdNumTZ

definition layout_chunks :: "(string \<times> std_chunk \<times> string) list" where
  "layout_chunks =
     [([CHR 0x22], stdLongYear, ''2006''),
      (''-'', stdZeroMonth, ''01''),
      (''-'', stdZeroDay, ''02''),
      (''T'', stdHour, ''15''),
      ('':'', stdZeroMinute, ''04''),
      ('':'', stdZeroSecond, ''05''),
      ([], stdFracSecond0 3, ''.000''),
      ([], stdNumTZ, ''-0700'')]"

definition layout_tail :: string where
  "layout_tail = [CHR 0x22]"

record parse_state =
  p_year :: int
  p_month :: int
  p_day :: int
  p_hour :: int
  p_min :: int
  p_sec :: int
  p_nsec :: int
  p_zoneOffset :: int

definition parse_init :: parse_state where
  "parse_init = \<lparr>p_year = 0, p_month = - 1, p_day = - 1, p_hour = 0, p_min = 0,
                  p_sec = 0, p_nsec = 0, p_zoneOffset = - 1\<rparr>"

definition isDigit :: "string \<Rightarrow> nat \<Rightarrow> bool" where
  "isDigit s i \<longleftrightarrow> i < length s \<and> is_digit (s ! i)"

definition digit_val :: "char \<Rightarrow> int" where
  "digit_val c = int (byte_sub c 48)"

definition getnum :: "string \<Rightarrow> bool \<Rightarrow> int \<times> string \<times> bool" where
  "getnum s fixed =
     (if \<not> isDigit s 0 then (0, s, True)
      else if \<not> isDigit s 1 then
        (if fixed then (0, s, True) else (digit_val (s ! 0), drop 1 s, False))
      else (digit_val (s ! 0) * 10 + digit_val (s ! 1), drop 2 s, False))"

fun leadingInt :: "string \<Rightarrow> int \<Rightarrow> int \<times> string \<times> bool" where
  "leadingInt [] x = (x, [], False)"
| "leadingInt (c # s) x =
     (if \<not> is_digit c then (x, c # s, False)
      else if x > 2 ^ 63 div 10 then (0, [], True)
      else if x * 10 + digit_val c > 2 ^ 63 then (0, [], True)
      else leadingInt s (x * 10 + digit_val c))"

definition atoi :: "string \<Rightarrow> int \<times> bool" where
  "atoi s0 =
     (let signed = (s0 \<noteq> [] \<and> (hd s0 = CHR ''-'' \<or> hd s0 = CHR ''+''));
          neg = (signed \<and> hd s0 = CHR ''-'');
          s = (if signed then tl s0 else s0);
          (q, rest, err) = leadingInt s 0;
          x = (if q \<ge> 2 ^ 63 then q - 2 ^ 64 else q)
      in if err \<or> rest \<noteq> [] then (0, True)
         else (if neg then - x else x, False))"

function skip :: "string \<Rightarrow> string \<Rightarrow> string \<times> bool" where
  "skip value [] = (value, False)"
| "skip value (p # pfx) =
     (if p = CHR '' '' then
        (if value \<noteq> [] \<and> hd value \<noteq> CHR '' '' then (value, True)
         else skip (dropWhile (\<lambda>c. c = CHR '' '') value)
                   (dropWhile (\<lambda>c. c = CHR '' '') pfx))
      else if value = [] \<or> hd value \<noteq> p then (value, True)
      else skip (tl value) pfx)"
  by pat_completeness auto
termination
  by (relation "measure (\<lambda>(value, pfx). length pfx)")
     (auto simp: less_Suc_eq_le length_dropWhile_le)

definition commaOrPeriod :: "char \<Rightarrow> bool" where
  "commaOrPeriod b \<longleftrightarrow> b = CHR ''.'' \<or> b = CHR '',''"

definition parseNanoseconds :: "string \<Rightarrow> nat \<Rightarrow> int \<times> string \<times> bool" where
  "parseNanoseconds value0 nbytes0 =
     (if \<not> commaOrPeriod (value0 ! 0) then (0, [], True)
      else
        (let value = (if nbytes0 > 10 then take 10 value0 else value0);
             nbytes = (if nbytes0 > 10 then 10 else nbytes0);
             (ns, err) = atoi (drop 1 (take nbytes value))
         in if err then (ns, [], True)
            else if ns < 0 then (ns, ''fractional second'', False)
            else (ns * 10 ^ (10 - nbytes), [], False)))"

text \<open>
  One standard chunk: the new state, the rest of the value, \<open>rangeErrString\<close>, the
  error flag and \<open>hold\<close> (the value as it was when the chunk began). For
  \<open>stdZeroSecond\<close> the library looks ahead for a fraction that the layout does not
  announce; this layout announces one (\<open>.000\<close>), so nothing is done there. The
  fields of a zone offset are tested with \<open>>\<close>, which lets 24 hours and 60 minutes
  through, and a later test overwrites the \<open>rangeErrString\<close> of an earlier one.
\<close>

fun parse_std ::
  "std_chunk \<Rightarrow> parse_state \<Rightarrow> string \<Rightarrow> parse_state \<times> string \<times> string \<times> bool \<times> string" where
  "parse_std stdLongYear st value =
     (if length value < 4 \<or> \<not> isDigit value 0 then (st, value, [], True, value)
      else (let (year, err) = atoi (take 4 value)
            in (st\<lparr>p_year := year\<rparr>, drop 4 value, [], err, value)))"
| "parse_std stdZeroMonth st value =
     (let (month, value', err) = getnum value True
      in (st\<lparr>p_month := month\<rparr>, value',
          if \<not> err \<and> (month \<le> 0 \<or> 12 < month) then ''month'' else [], err, value))"
| "parse_std stdZeroDay st value =
     (let (day, value', err) = getnum value True
      in (st\<lparr>p_day := day\<rparr>, value', [], err, value))"
| "parse_std stdHour st value =
     (let (hour, value', err) = getnum value False
      in (st\<lparr>p_hour := hour\<rparr>, value',
          if hour < 0 \<or> 24 \<le> hour then ''hour'' else [], err, value))"
| "parse_std stdZeroMinute st value =
     (let (minute, value', err) = getnum value True
      in (st\<lparr>p_min := minute\<rparr>, value',
          if minute < 0 \<or> 60 \<le> minute then ''minute'' else [], err, value))"
| "parse_std stdZeroSecond st value =
     (let (sec, value', err) = getnum value True
      in if err then (st\<lparr>p_sec := sec\<rparr>, value', [], True, value)
         else if sec < 0 \<or> 60 \<le> sec then (st\<lparr>p_sec := sec\<rparr>, value', ''second'', False, value)
         else (st\<lparr>p_sec := sec\<rparr>, value', [], False, value))"
| "parse_std (stdFracSecond0 n) st value =
     (let ndigit = 1 + n
      in if length value < ndigit then (st, value, [], True, value)
         else (let (nsec, rangeErrString, err) = parseNanoseconds value ndigit
               in (st\<lparr>p_nsec := nsec\<rparr>, drop ndigit value, rangeErrString, err, value)))"
| "parse_std stdNumTZ st value =
     (if length value < 5 then (st, value, [], True, value)
      else
        (let sign = take 1 value;
             hour = take 2 (drop 1 value);
             minute = take 2 (drop 3 value);
             seconds = ''00'';
             (hr, _, err1) = getnum hour True;
             (mm, _, err2) = (if \<not> err1 then getnum minute True else (0, minute, err1));
             (ss, _, err3) = (if \<not> err2 then getnum seconds True else (0, seconds, err2));
             range1 = (if hr > 24 then ''time zone offset hour'' else []);
             range2 = (if mm > 60 then ''time zone offset minute'' else range1);
             range3 = (if ss > 60 then ''time zone offset second'' else range2);
             zoneOffset = (hr * 60 + mm) * 60 + ss
         in if sign = ''+'' then
              (st\<lparr>p_zoneOffset := zoneOffset\<rparr>, drop 5 value, range3, err3, value)
            else if sign = ''-'' then
              (st\<lparr>p_zoneOffset := - zoneOffset\<rparr>, drop 5 value, range3, err3, value)
            else (st\<lparr>p_zoneOffset := zoneOffset\<rparr>, drop 5 value, range3, True, value)))"

fun parse_chunks ::
  "string \<Rightarrow> (string \<times> std_chunk \<times> string) list \<Rightarrow> parse_state \<Rightarrow> string
     \<Rightarrow> go_error + parse_state \<times> string" where
  "parse_chunks avalue [] st value = Inr (st, value)"
| "parse_chunks avalue ((pfx, std, stdstr) # chunks) st value =
     (let (value1, bad) = skip value pfx
      in if bad then Inl (TimeParseError layout avalue pfx value1 NoMessage)
         else
           (let (st', value2, rangeErrString, err, hold) = parse_std std st value1
            in if rangeErrString \<noteq> [] then
                 Inl (TimeParseError layout avalue stdstr value2 (OutOfRange rangeErrString))
               else if err then Inl (TimeParseError layout avalue stdstr hold NoMessage)
               else parse_chunks avalue chunks st' value2))"

definition isLeap :: "int \<Rightarrow> bool" where
  "isLeap year \<longleftrightarrow> year mod 4 = 0 \<and> (year mod 100 \<noteq> 0 \<or> year mod 400 = 0)"

definition daysIn :: "int \<Rightarrow> int \<Rightarrow> int" where
  "daysIn m year =
     (if m = 2 then (if isLeap year then 29 else 28)
      else 30 + ((m + m div 8) mod 2))"

definition daysBefore :: "int list" where
  "daysBefore = [0, 31, 59, 90, 120, 151, 181, 212, 243, 273, 304, 334, 365]"

text \<open>
  \<open>time.Date\<close> in UTC, for fields that are in range, as \<open>Parse\<close> has made sure when
  it calls it (the library's \<open>Date\<close> also normalises fields that overflow): the days
  before the year, before the month and before the day, then the time of day.
\<close>

definition Date :: "int \<Rightarrow> int \<Rightarrow> int \<Rightarrow> int \<Rightarrow> int \<Rightarrow> int \<Rightarrow> int \<Rightarrow> go_time" where
  "Date year month day hour minute sec nsec =
     (let y = year - 1;
          d = 365 * y + y div 4 - y div 100 + y div 400
              + daysBefore ! nat (month - 1)
              + (if isLeap year \<and> month \<ge> 3 then 1 else 0)
              + (day - 1)
      in \<lparr>t_sec = d * 86400 + hour * 3600 + minute * 60 + sec, t_nsec = nsec, t_offset = 0\<rparr>)"

definition Unix :: "go_time \<Rightarrow> int" where
  "Unix t = t_sec t - 62135596800"

text \<open>
  After the loop \<open>Parse\<close> settles the fields. This layout has no AM/PM, day-of-year or
  zone-name chunk, so of those steps only the defaults remain: a month or day that no
  chunk has set (still \<open>- 1\<close>) becomes 1. The day is then checked against the month, and
  a zone offset that a chunk has set (anything but \<open>- 1\<close>) moves the instant; without
  one the fields are read in UTC.
\<close>

definition time_Parse :: "string \<Rightarrow> go_error + go_time" where
  "time_Parse avalue =
     (case parse_chunks avalue layout_chunks parse_init avalue of
        Inl err \<Rightarrow> Inl err
      | Inr (st, value) \<Rightarrow>
          (let (value', bad) = skip value layout_tail
           in if bad then Inl (TimeParseError layout avalue layout_tail value' NoMessage)
              else if value' \<noteq> [] then
                Inl (TimeParseError layout avalue [] value' (ExtraText value'))
              else
                (let month = (if p_month st < 0 then 1 else p_month st);
                     day = (if p_day st < 0 then 1 else p_day st)
                 in if day < 1 \<or> day > daysIn month (p_year st) then
                      Inl (TimeParseError layout avalue [] value' DayOutOfRange)
                    else
                      (let t = Date (p_year st) month day
                                 (p_hour st) (p_min st) (p_sec st) (p_nsec st)
                       in if p_zoneOffset st \<noteq> - 1 then
                            Inr (t\<lparr>t_sec := t_sec t - p_zoneOffset st,
                                  t_offset := p_zoneOffset st\<rparr>)
                          else Inr t))))"

subsection \<open>\<open>SalesforceTime.UnmarshalJSON\<close>\<close>

text \<open>The receiver is passed in and handed back: \<open>*t = ...\<close> is the only write to it.\<close>

definition UnmarshalJSON :: "SalesforceTime \<Rightarrow> string \<Rightarrow> SalesforceTime \<times> go_error option" where
  "UnmarshalJSON t b =
     (let s = b
      in if s = ''null'' then (t, None)
         else (case time_Parse s of
                 Inl err \<Rightarrow> (t, Some err)
               | Inr tt \<Rightarrow> (\<lparr>Time = tt\<rparr>, None)))"

section \<open>Jobs\<close>

text \<open>A \<open>float64\<close> is carried as its 64 bits; \<open>bulk.go\<close> does no arithmetic on it.\<close>

type_synonym float64 = "64 word"

record BulkJob =
  client :: Client
  Id :: string
  Operation :: string
  Object :: string
  CreatedById :: string
  CreatedDate :: SalesforceTime
  SystemModstamp :: SalesforceTime
  job_State :: string
  ConcurrencyMode :: string
  ContentType :: string
  ApiVersion :: float64
  LineEnding :: string
  ColumnDelimiter :: string

record BulkJobResultSet =
  rs_Body :: string
  rs_Next :: string
  rs_Rows :: int

subsection \<open>\<open>GetStatus\<close> and \<open>Wait\<close>\<close>

definition GetStatus :: "env \<Rightarrow> BulkJob \<Rightarrow> world \<Rightarrow> (go_error + BulkJobStatus) \<times> world" where
  "GetStatus e job w =
     (let url = makeURL e (client job) (''jobs/query/'' @ Id job);
          w' = w\<lparr>issued := issued w @ [ClientRequest ''GET'' url]\<rparr>
      in case httpRequest e (length (issued w)) (client job) ''GET'' url of
           Inl err \<Rightarrow> (Inl (External err), w')
         | Inr b \<Rightarrow>
             (case json_Unmarshal e b of
                Inl err \<Rightarrow> (Inl (errors_Join (ParseSalesforceError e 0 b) (External err)), w')
              | Inr status \<Rightarrow> (Inr status, w')))"

text \<open>
  The context of \<open>Wait\<close> is what its \<open>select\<close> sees at the start of each iteration of
  this call: \<open>ctx i = None\<close> when \<open>ctx.Done()\<close> is still open at iteration \<open>i\<close>
  (counted from 0), and \<open>Some c\<close> when it is closed and \<open>ctx.Err()\<close> is \<open>c\<close>.

  The loop of \<open>Wait\<close> has no bound, so the model is a partial function: \<open>None\<close> is a
  call that never returns, \<open>Some (err, w)\<close> one that returns \<open>err\<close> in the world \<open>w\<close>.
\<close>

type_synonym Context = "nat \<Rightarrow> ctx_error option"

partial_function (option) Wait_loop ::
  "env \<Rightarrow> BulkJob \<Rightarrow> Context \<Rightarrow> nat \<Rightarrow> world \<Rightarrow> (go_error option \<times> world) option"
where
  "Wait_loop e job ctx i w =
     (case ctx i of
        Some c \<Rightarrow> Some (Some (ContextError c), w)
      | None \<Rightarrow>
          (case fst (GetStatus e job w) of
             Inl err \<Rightarrow> Some (Some err, snd (GetStatus e job w))
           | Inr status \<Rightarrow>
               if IsFinished (State status)
               then Some (ToError (State status), snd (GetStatus e job w))
               else Wait_loop e job ctx (Suc i)
                      (time_Sleep (10 * Second) (snd (GetStatus e job w)))))"

definition Wait :: "env \<Rightarrow> BulkJob \<Rightarrow> Context \<Rightarrow> world \<Rightarrow> (go_error option \<times> world) option" where
  "Wait e job ctx w = Wait_loop e job ctx 0 w"

subsection \<open>\<open>GetResultSet\<close> and \<open>Delete\<close>\<close>

text \<open>
  \<open>fmt.Errorf\<close> with two \<open>%s\<close> verbs copies its two string arguments into the format.
  The buffer of \<open>GetResultSet\<close> is modelled by its content; the capacity it is created
  with does not show in the result.
\<close>

definition GetResultSet ::
  "env \<Rightarrow> BulkJob \<Rightarrow> string \<Rightarrow> world \<Rightarrow> (go_error + BulkJobResultSet) \<times> world" where
  "GetResultSet e job locator w =
     (let url = makeURL e (client job) (''jobs/query/'' @ Id job @ ''/results'')
      in case NewRequest e ''GET'' url of
           Inl err \<Rightarrow> (Inl err, w)
         | Inr req0 \<Rightarrow>
             (let req = Header_Add ''Authorization'' (''Bearer '' @ sessionID (client job))
                          (Header_Add ''Accept'' ''text/csv''
                            (Header_Add ''Content-Type'' ''application/json'' req0));
                  w' = w\<lparr>issued := issued w @ [DoRequest req]\<rparr>
              in case httpClient_Do e (length (issued w)) (client job) req of
                   Inl err \<Rightarrow> (Inl (External err), w')
                 | Inr resp \<Rightarrow>
                     if resp_StatusCode resp \<ge> 400 then
                       (let b = fst (io_ReadAll (resp_Body resp))
                        in (Inl (Errorf (''failed to get result set from bulk job: ''
                                           @ resp_Status resp @ '' body('' @ b @ '')'')), w'))
                     else
                       (case body_err (resp_Body resp) of
                          Some err \<Rightarrow> (Inl (External err), w')
                        | None \<Rightarrow>
                            (let rows = fst (Atoi (resp_Header_Get resp ''Sforce-NumberOfRecords''))
                             in (Inr \<lparr>rs_Body = body_data (resp_Body resp),
                                      rs_Next = resp_Header_Get resp ''Sforce-Locator'',
                                      rs_Rows = rows\<rparr>, w')))))"

definition Delete :: "env \<Rightarrow> BulkJob \<Rightarrow> world \<Rightarrow> go_error option \<times> world" where
  "Delete e job w =
     (let url = makeURL e (client job) (''jobs/query/'' @ Id job)
      in case NewRequest e ''GET'' url of
           Inl err \<Rightarrow> (Some err, w)
         | Inr req0 \<Rightarrow>
             (let req = Header_Add ''Authorization'' (''Bearer '' @ sessionID (client job))
                          (Header_Add ''Content-Type'' ''application/json'' req0);
                  w' = w\<lparr>issued := issued w @ [DoRequest req]\<rparr>
              in case httpClient_Do e (length (issued w)) (client job) req of
                   Inl err \<Rightarrow> (Some (External err), w')
                 | Inr resp \<Rightarrow>
                     if resp_StatusCode resp \<ge> 400 then
                       (let b = fst (io_ReadAll (resp_Body resp))
                        in (Some (Errorf (''failed to delete bulk job: ''
                                            @ resp_Status resp @ '' body('' @ b @ '')'')), w'))
                     else (None, w')))"

section \<open>Test doubles\<close>

text \<open>
  A mock transport in the style of the package's tests: it answers the \<open>n\<close>-th request
  from a script, accepts every URL, and its status decoder reads a body that is the bare
  name of one of the five states. The job \<open>mock_job\<close> is bound to a client with the
  session id \<open>sid\<close>, and \<open>fresh_world\<close> is a world in which nothing has happened.
\<close>

definition mock_client :: Client where
  "mock_client = \<lparr>sessionID = ''sid''\<rparr>"

definition mock_job :: BulkJob where
  "mock_job =
     \<lparr>client = mock_client, Id = ''750R'', Operation = ''query'', Object = ''Account'',
      CreatedById = ''005R'', CreatedDate = \<lparr>Time = zero_time\<rparr>,
      SystemModstamp = \<lparr>Time = zero_time\<rparr>, job_State = ''UploadComplete'',
      ConcurrencyMode = ''Parallel'', ContentType = ''CSV'', ApiVersion = 0,
      LineEnding = ''LF'', ColumnDelimiter = ''COMMA''\<rparr>"

definition mock_decode :: "string \<Rightarrow> string + BulkJobStatus" where
  "mock_decode b =
     (if b \<in> set [UploadComplete, InProgress, Aborted, JobComplete, Failed]
      then Inr \<lparr>State = b, NumberRecordsProcessed = 0, Retries = 0,
                TotalProcessingTimeMilliseconds = 0\<rparr>
      else Inl ''invalid character'')"

definition mock_env :: "(nat \<Rightarrow> string + string) \<Rightarrow> (nat \<Rightarrow> string + http_response) \<Rightarrow> env" where
  "mock_env polls replies =
     \<lparr>makeURL = (\<lambda>c path. ''https://sf.test/'' @ path),
      httpRequest = (\<lambda>n c method url. polls n),
      httpClient_Do = (\<lambda>n c req. replies n),
      NewRequest_error = (\<lambda>method url. None),
      json_Unmarshal = mock_decode,
      ParseSalesforceError = (\<lambda>code b. Some (External ''salesforce error''))\<rparr>"

definition mock_response :: "int \<Rightarrow> string \<Rightarrow> (string \<times> string) list \<Rightarrow> string \<Rightarrow> http_response" where
  "mock_response code status headers body =
     \<lparr>resp_StatusCode = code, resp_Status = status,
      resp_ContentLength = int (length body),
      resp_Header_Get = (\<lambda>k. case map_of headers k of None \<Rightarrow> [] | Some v \<Rightarrow> v),
      resp_Body = \<lparr>body_data = body, body_err = None\<rparr>\<rparr>"

definition script :: "'a list \<Rightarrow> 'a \<Rightarrow> nat \<Rightarrow> 'a" where
  "script xs d n = (if n < length xs then xs ! n else d)"

definition poll_env :: "string list \<Rightarrow> env" where
  "poll_env names =
     mock_env (script (map Inr names) (Inl ''connection refused'')) (\<lambda>n. Inl ''unused'')"

definition fresh_world :: world where
  "fresh_world = \<lparr>issued = [], slept = []\<rparr>"

definition never_done :: Context where
  "never_done = (\<lambda>i. None)"

text \<open>
  The world after \<open>n\<close> full rounds of the loop of \<open>Wait\<close> on \<open>job\<close>: \<open>n\<close> status
  requests and \<open>n\<close> sleeps of ten seconds more than in \<open>w\<close>. \<open>polled_state\<close> is the
  state a status request made in the world \<open>w\<close> reports, if the request and the decoding
  succeed.
\<close>

definition status_call :: "env \<Rightarrow> BulkJob \<Rightarrow> http_call" where
  "status_call e job = ClientRequest ''GET'' (makeURL e (client job) (''jobs/query/'' @ Id job))"

definition after_rounds :: "env \<Rightarrow> BulkJob \<Rightarrow> world \<Rightarrow> nat \<Rightarrow> world" where
  "after_rounds e job w n =
     w\<lparr>issued := issued w @ replicate n (status_call e job),
       slept := slept w @ replicate n (10 * Second)\<rparr>"

definition polled_state :: "env \<Rightarrow> BulkJob \<Rightarrow> world \<Rightarrow> JobStateEnum option" where
  "polled_state e job w =
     (case fst (GetStatus e job w) of Inl err \<Rightarrow> None | Inr status \<Rightarrow> Some (State status))"

text \<open>Reading decimal digits, for stating what a timestamp denotes.\<close>

definition num2 :: "char \<Rightarrow> char \<Rightarrow> int" where
  "num2 a b = digit_val a * 10 + digit_val b"

definition num3 :: "char \<Rightarrow> char \<Rightarrow> char \<Rightarrow> int" where
  "num3 a b c = (digit_val a * 10 + digit_val b) * 10 + digit_val c"

definition num4 :: "char \<Rightarrow> char \<Rightarrow> char \<Rightarrow> char \<Rightarrow> int" where
  "num4 a b c d = ((digit_val a * 10 + digit_val b) * 10 + digit_val c) * 10 + digit_val d"

definition quoted :: "string \<Rightarrow> string" where
  "quoted s = [CHR 0x22] @ s @ [CHR 0x22]"

text \<open>
  The offset a sign and four digits denote, in seconds, and an instant given as the
  wall-clock reading \<open>t\<close> of a zone that is \<open>off\<close> seconds east of UTC.
\<close>

definition numeric_offset :: "char \<Rightarrow> char \<Rightarrow> char \<Rightarrow> char \<Rightarrow> char \<Rightarrow> int" where
  "numeric_offset sg a b c d =
     (if sg = CHR ''-'' then - 1 else 1) * ((num2 a b * 60 + num2 c d) * 60)"

definition at_offset :: "go_time \<Rightarrow> int \<Rightarrow> go_time" where
  "at_offset t off = t\<lparr>t_sec := t_sec t - off, t_offset := off\<rparr>"

section \<open>Properties of the job state model\<close>

lemma state_names_distinct:
  "distinct [UploadComplete, InProgress, Aborted, JobComplete, Failed]"
  by (simp add: UploadComplete_def InProgress_def Aborted_def JobComplete_def Failed_def)

text \<open>
  C7. \<open>ToError\<close> is a total function of the state alone. It returns the error
  "job aborted" for \<open>Aborted\<close> and "job failed" for \<open>Failed\<close>, the two are different
  errors, and it returns nil for every other value of the type: the three other named
  states, \<open>JobComplete\<close> among them, and any string that is none of the five.
\<close>

theorem ToError_total_mapping:
  "ToError Aborted = Some (Errorf ''job aborted'')
   \<and> ToError Failed = Some (Errorf ''job failed'')
   \<and> ToError Aborted \<noteq> ToError Failed
   \<and> ToError UploadComplete = None
   \<and> ToError InProgress = None
   \<and> ToError JobComplete = None
   \<and> (\<forall>j. (ToError j \<noteq> None) = (j = Aborted \<or> j = Failed))"
  using state_names_distinct by (auto simp add: ToError_def)

section \<open>Properties of \<open>Wait\<close>\<close>

lemma not_finished_names: "\<not> IsFinished UploadComplete \<and> \<not> IsFinished InProgress"
  using state_names_distinct by (auto simp: IsFinished_def)

lemma GetStatus_world:
  "snd (GetStatus e job w) = w\<lparr>issued := issued w @ [status_call e job]\<rparr>"
  by (simp add: GetStatus_def status_call_def Let_def split: sum.splits)

lemma GetStatus_error_origin:
  "fst (GetStatus e job w) = Inl err \<Longrightarrow>
     (\<exists>m. err = External m) \<or> (\<exists>sf m. err = errors_Join sf (External m))"
  by (auto simp: GetStatus_def Let_def split: sum.splits)

lemma after_rounds_0: "after_rounds e job w 0 = w"
  by (simp add: after_rounds_def)

lemma after_rounds_Suc:
  "time_Sleep (10 * Second) (snd (GetStatus e job (after_rounds e job w n)))
     = after_rounds e job w (Suc n)"
  by (simp add: GetStatus_world time_Sleep_def after_rounds_def replicate_append_same)

lemma Wait_loop_sleeps:
  assumes "ctx i = None" and "polled_state e job w = Some s" and "\<not> IsFinished s"
  shows "Wait_loop e job ctx i w
           = Wait_loop e job ctx (Suc i) (time_Sleep (10 * Second) (snd (GetStatus e job w)))"
  using assms
  by (subst Wait_loop.simps) (auto simp: polled_state_def split: sum.splits)

lemma Wait_loop_finishes:
  assumes "ctx i = None" and "polled_state e job w = Some s" and "IsFinished s"
  shows "Wait_loop e job ctx i w = Some (ToError s, snd (GetStatus e job w))"
  using assms
  by (subst Wait_loop.simps) (auto simp: polled_state_def split: sum.splits)

lemma Wait_loop_cancelled:
  assumes "ctx i = Some c"
  shows "Wait_loop e job ctx i w = Some (Some (ContextError c), w)"
  using assms by (subst Wait_loop.simps) simp

lemma Wait_loop_rounds:
  assumes "\<forall>i<k. ctx i = None \<and>
             (\<exists>s. polled_state e job (after_rounds e job w i) = Some s \<and> \<not> IsFinished s)"
  shows "Wait_loop e job ctx 0 w = Wait_loop e job ctx k (after_rounds e job w k)"
  using assms
proof (induction k)
  case 0
  show ?case by (simp add: after_rounds_0)
next
  case (Suc k)
  then have run: "Wait_loop e job ctx 0 w = Wait_loop e job ctx k (after_rounds e job w k)"
    by simp
  from Suc.prems obtain s where "ctx k = None"
    and "polled_state e job (after_rounds e job w k) = Some s" and "\<not> IsFinished s"
    by auto
  then have "Wait_loop e job ctx k (after_rounds e job w k)
               = Wait_loop e job ctx (Suc k) (after_rounds e job w (Suc k))"
    by (simp add: Wait_loop_sleeps after_rounds_Suc)
  with run show ?case by simp
qed

text \<open>
  C2. Let the context stay open through the first \<open>k + 1\<close> iterations, let the first
  \<open>k\<close> status requests report states that are not finished (\<open>UploadComplete\<close> and
  \<open>InProgress\<close> are such states, by \<open>not_finished_names\<close>) and let the next one
  report a finished state \<open>st\<close>. Then \<open>Wait\<close> returns, its result is \<open>ToError st\<close>,
  it has issued exactly \<open>k + 1\<close> status requests and has slept exactly \<open>k\<close> times,
  ten seconds each time.
\<close>

theorem Wait_polls_until_terminal:
  assumes "\<forall>i\<le>k. ctx i = None"
      and "\<forall>i<k. \<exists>s. polled_state e job (after_rounds e job w i) = Some s \<and> \<not> IsFinished s"
      and "polled_state e job (after_rounds e job w k) = Some st"
      and "IsFinished st"
  shows "Wait e job ctx w =
           Some (ToError st,
                 w\<lparr>issued := issued w @ replicate (k + 1) (status_call e job),
                   slept := slept w @ replicate k (10 * Second)\<rparr>)"
proof -
  have "Wait e job ctx w = Wait_loop e job ctx k (after_rounds e job w k)"
    unfolding Wait_def using assms(1,2) by (intro Wait_loop_rounds) simp
  also have "\<dots> = Some (ToError st, snd (GetStatus e job (after_rounds e job w k)))"
    using assms by (intro Wait_loop_finishes) simp_all
  also have "snd (GetStatus e job (after_rounds e job w k))
               = w\<lparr>issued := issued w @ replicate (k + 1) (status_call e job),
                   slept := slept w @ replicate k (10 * Second)\<rparr>"
    by (simp add: GetStatus_world after_rounds_def replicate_append_same)
  finally show ?thesis .
qed

lemma polled_mock:
  "polled_state (poll_env names) mock_job w
     = (if length (issued w) < length names \<and> names ! length (issued w) \<in> set [UploadComplete, InProgress, Aborted, JobComplete, Failed] then Some (names ! length (issued w)) else None)"
  by (simp add: polled_state_def GetStatus_def poll_env_def mock_env_def script_def mock_decode_def Let_def)

theorem Wait_polls_until_terminal_witness:
  "Wait (poll_env [InProgress, InProgress, JobComplete]) mock_job never_done fresh_world
     = Some (None, \<lparr>issued = replicate 3 (ClientRequest ''GET'' ''https://sf.test/jobs/query/750R''),
                    slept = [10000000000, 10000000000]\<rparr>)
   \<and> Wait (poll_env [Failed]) mock_job never_done fresh_world
     = Some (Some (Errorf ''job failed''),
             \<lparr>issued = [ClientRequest ''GET'' ''https://sf.test/jobs/query/750R''], slept = []\<rparr>)"
proof -
  have sc: "status_call (poll_env ns) mock_job = ClientRequest ''GET'' ''https://sf.test/jobs/query/750R''" for ns
    by (simp add: status_call_def poll_env_def mock_env_def mock_job_def)
  have fin: "IsFinished JobComplete" "IsFinished Failed"
    by (simp_all add: IsFinished_def)
  have te: "ToError JobComplete = None" "ToError Failed = Some (Errorf ''job failed'')"
    using state_names_distinct by (auto simp: ToError_def)
  have a: "\<forall>i\<le>k. never_done i = None" for k
    by (simp add: never_done_def)
  have b: "\<forall>i<2. \<exists>s. polled_state (poll_env [InProgress, InProgress, JobComplete]) mock_job
                (after_rounds (poll_env [InProgress, InProgress, JobComplete]) mock_job fresh_world i) = Some s
              \<and> \<not> IsFinished s"
    using not_finished_names
    by (auto simp: polled_mock after_rounds_def fresh_world_def less_Suc_eq numeral_2_eq_2 nth_Cons')
  have c: "polled_state (poll_env [InProgress, InProgress, JobComplete]) mock_job
             (after_rounds (poll_env [InProgress, InProgress, JobComplete]) mock_job fresh_world 2) = Some JobComplete"
    by (simp add: polled_mock after_rounds_def fresh_world_def)
  have d: "polled_state (poll_env [Failed]) mock_job
             (after_rounds (poll_env [Failed]) mock_job fresh_world 0) = Some Failed"
    by (simp add: polled_mock after_rounds_def fresh_world_def)
  show ?thesis
    using Wait_polls_until_terminal [OF a b c fin(1)]
          Wait_polls_until_terminal [of 0 never_done "poll_env [Failed]" mock_job fresh_world Failed, OF a _ d fin(2)]
    by (simp add: sc te fresh_world_def Second_def numeral_3_eq_3 numeral_2_eq_2)
qed

text \<open>
  C3. If the context is found done at iteration \<open>k\<close>, after \<open>k\<close> rounds that each
  polled an unfinished state, \<open>Wait\<close> returns \<open>ctx.Err()\<close> having issued the \<open>k\<close>
  requests of those rounds and none after. With \<open>k = 0\<close>, a context that is done when
  \<open>Wait\<close> is called, the world is untouched: no request is issued at all. The error
  returned is not one \<open>ToError\<close> produces for any state, and not one \<open>GetStatus\<close>
  returns (transport and decode errors).
\<close>

theorem Wait_cancelled:
  assumes "\<forall>i<k. ctx i = None \<and>
             (\<exists>s. polled_state e job (after_rounds e job w i) = Some s \<and> \<not> IsFinished s)"
      and "ctx k = Some c"
  shows "Wait e job ctx w =
           Some (Some (ContextError c),
                 w\<lparr>issued := issued w @ replicate k (status_call e job),
                   slept := slept w @ replicate k (10 * Second)\<rparr>)
         \<and> (k = 0 \<longrightarrow> Wait e job ctx w = Some (Some (ContextError c), w))
         \<and> (\<forall>j. ToError j \<noteq> Some (ContextError c))
         \<and> (\<forall>w'. fst (GetStatus e job w') \<noteq> Inl (ContextError c))"
proof -
  have "Wait e job ctx w = Wait_loop e job ctx k (after_rounds e job w k)"
    unfolding Wait_def using assms(1) by (rule Wait_loop_rounds)
  then have run: "Wait e job ctx w = Some (Some (ContextError c), after_rounds e job w k)"
    using assms(2) by (simp add: Wait_loop_cancelled)
  have out: "ToError j \<noteq> Some (ContextError c)" for j
    by (simp add: ToError_def)
  have poll: "fst (GetStatus e job w') \<noteq> Inl (ContextError c)" for w'
    using GetStatus_error_origin [of e job w' "ContextError c"]
    by (auto simp: errors_Join_def)
  show ?thesis
    using run out poll by (auto simp: after_rounds_def)
qed

theorem Wait_cancelled_witness:
  "Wait (poll_env [InProgress, InProgress, JobComplete]) mock_job (\<lambda>i. Some Canceled) fresh_world
     = Some (Some (ContextError Canceled), fresh_world)
   \<and> Wait (poll_env [InProgress, InProgress, JobComplete]) mock_job
        (\<lambda>i. if i = 0 then None else Some DeadlineExceeded) fresh_world
     = Some (Some (ContextError DeadlineExceeded),
             \<lparr>issued = [ClientRequest ''GET'' ''https://sf.test/jobs/query/750R''],
              slept = [10000000000]\<rparr>)"
proof -
  have sc: "status_call (poll_env ns) mock_job
              = ClientRequest ''GET'' ''https://sf.test/jobs/query/750R''" for ns
    by (simp add: status_call_def poll_env_def mock_env_def mock_job_def)
  have first: "\<forall>i<1. (if i = 0 then None else Some DeadlineExceeded) = None
      \<and> (\<exists>s. polled_state (poll_env [InProgress, InProgress, JobComplete]) mock_job
                (after_rounds (poll_env [InProgress, InProgress, JobComplete]) mock_job
                   fresh_world i) = Some s
              \<and> \<not> IsFinished s)"
    using not_finished_names
    by (auto simp: polled_mock after_rounds_def fresh_world_def)
  show ?thesis
    using Wait_cancelled [of 0 "\<lambda>i. Some Canceled"
            "poll_env [InProgress, InProgress, JobComplete]" mock_job fresh_world Canceled]
          Wait_cancelled [of 1 "\<lambda>i. if i = 0 then None else Some DeadlineExceeded"
            "poll_env [InProgress, InProgress, JobComplete]" mock_job fresh_world
            DeadlineExceeded, OF first]
    by (simp add: sc fresh_world_def Second_def)
qed

section \<open>Properties of \<open>GetResultSet\<close> and \<open>Delete\<close>\<close>

text \<open>
  C1. The claim is that a non-empty continuation token is attached to the results
  request, so that the request depends on the token. In the code the parameter
  \<open>locator\<close> is never read: for every token, \<open>GetResultSet\<close> issues the request it
  issues for the empty token and returns the same result. The second part shows the
  request issued for the token \<open>tok123\<close> against the mock: the URL and the three headers,
  none of which carries the token.
\<close>

theorem GetResultSet_ignores_locator:
  "GetResultSet e job locator w = GetResultSet e job [] w
   \<and> snd (GetResultSet (mock_env (\<lambda>n. Inl ''unused'')
                          (\<lambda>n. Inr (mock_response 200 ''200 OK'' [] [])))
             mock_job ''tok123'' fresh_world)
       = \<lparr>issued = [DoRequest \<lparr>req_Method = ''GET'',
                                req_URL = ''https://sf.test/jobs/query/750R/results'',
                                req_Header = [(''Content-Type'', ''application/json''),
                                              (''Accept'', ''text/csv''),
                                              (''Authorization'', ''Bearer sid'')]\<rparr>],
          slept = []\<rparr>"
  by (simp add: GetResultSet_def mock_env_def mock_response_def mock_job_def mock_client_def
        fresh_world_def NewRequest_def Header_Add_def io_ReadAll_def Let_def)

lemma GetResultSet_status_error:
  assumes "\<forall>url. NewRequest_error e ''GET'' url = None"
      and "\<forall>req. httpClient_Do e (length (issued w)) (client job) req = Inr resp"
      and "400 \<le> resp_StatusCode resp"
  shows "fst (GetResultSet e job locator w) =
           Inl (Errorf (''failed to get result set from bulk job: '' @ resp_Status resp
                          @ '' body('' @ body_data (resp_Body resp) @ '')''))"
  using assms by (simp add: GetResultSet_def NewRequest_def io_ReadAll_def Let_def)

lemma Delete_status_error:
  assumes "\<forall>url. NewRequest_error e ''GET'' url = None"
      and "\<forall>req. httpClient_Do e (length (issued w)) (client job) req = Inr resp"
      and "400 \<le> resp_StatusCode resp"
  shows "fst (Delete e job w) =
           Some (Errorf (''failed to delete bulk job: '' @ resp_Status resp
                          @ '' body('' @ body_data (resp_Body resp) @ '')''))"
  using assms by (simp add: Delete_def NewRequest_def io_ReadAll_def Let_def)

lemma Delete_success:
  assumes "\<forall>url. NewRequest_error e ''GET'' url = None"
      and "\<forall>req. httpClient_Do e (length (issued w)) (client job) req = Inr resp"
      and "resp_StatusCode resp < 400"
  shows "fst (Delete e job w) = None"
  using assms by (simp add: Delete_def NewRequest_def Let_def)

text \<open>
  C8. When the request can be built and the transport answers with a response whose
  status code is at least 400, \<open>GetResultSet\<close> and \<open>Delete\<close> each return an error made
  by \<open>fmt.Errorf\<close> whose text contains the status line of the response and the body
  text read from it (\<open>GetResultSet_status_error\<close> and \<open>Delete_status_error\<close> give
  the whole text). When the status code is below 400, \<open>Delete\<close> returns nil.
\<close>

theorem status_error_carries_status_and_body:
  assumes "\<forall>url. NewRequest_error e ''GET'' url = None"
      and "\<forall>req. httpClient_Do e (length (issued w)) (client job) req = Inr resp"
  shows "(400 \<le> resp_StatusCode resp \<longrightarrow>
            (\<exists>msg. fst (GetResultSet e job locator w) = Inl (Errorf msg)
                   \<and> sublist (resp_Status resp) msg
                   \<and> sublist (body_data (resp_Body resp)) msg)
          \<and> (\<exists>msg. fst (Delete e job w) = Some (Errorf msg)
                   \<and> sublist (resp_Status resp) msg
                   \<and> sublist (body_data (resp_Body resp)) msg))
       \<and> (resp_StatusCode resp < 400 \<longrightarrow> fst (Delete e job w) = None)"
proof -
  have status: "sublist s (p @ s @ m @ b @ t)" for p s m b t :: string
    by (rule sublist_appendI)
  have body: "sublist b (p @ s @ m @ b @ t)" for p s m b t :: string
    using sublist_appendI [of b "p @ s @ m" t] by (simp only: append_assoc)
  have results: "\<exists>msg. fst (GetResultSet e job locator w) = Inl (Errorf msg)
                   \<and> sublist (resp_Status resp) msg
                   \<and> sublist (body_data (resp_Body resp)) msg"
    if "400 \<le> resp_StatusCode resp"
    using GetResultSet_status_error [OF assms that, of locator] status body by blast
  have delete: "\<exists>msg. fst (Delete e job w) = Some (Errorf msg)
                   \<and> sublist (resp_Status resp) msg
                   \<and> sublist (body_data (resp_Body resp)) msg"
    if "400 \<le> resp_StatusCode resp"
    using Delete_status_error [OF assms that] status body by blast
  show ?thesis
    using results delete Delete_success [OF assms] by blast
qed

theorem status_error_carries_status_and_body_witness:
  "(\<exists>msg. fst (GetResultSet (mock_env (\<lambda>n. Inl ''unused'')
                   (\<lambda>n. Inr (mock_response 500 ''500 Internal Server Error'' [] ''boom'')))
                 mock_job [] fresh_world) = Inl (Errorf msg)
          \<and> sublist ''500 Internal Server Error'' msg \<and> sublist ''boom'' msg)
   \<and> (\<exists>msg. fst (Delete (mock_env (\<lambda>n. Inl ''unused'')
                   (\<lambda>n. Inr (mock_response 500 ''500 Internal Server Error'' [] ''boom'')))
                 mock_job fresh_world) = Some (Errorf msg)
          \<and> sublist ''500 Internal Server Error'' msg \<and> sublist ''boom'' msg)
   \<and> fst (Delete (mock_env (\<lambda>n. Inl ''unused'')
                   (\<lambda>n. Inr (mock_response 204 ''204 No Content'' [] [])))
             mock_job fresh_world) = None"
  using status_error_carries_status_and_body
          [of "mock_env (\<lambda>n. Inl ''unused'')
                 (\<lambda>n. Inr (mock_response 500 ''500 Internal Server Error'' [] ''boom''))"
              fresh_world mock_job
              "mock_response 500 ''500 Internal Server Error'' [] ''boom''" "[]"]
        status_error_carries_status_and_body
          [of "mock_env (\<lambda>n. Inl ''unused'')
                 (\<lambda>n. Inr (mock_response 204 ''204 No Content'' [] []))"
              fresh_world mock_job
              "mock_response 204 ''204 No Content'' [] []" "[]"]
  by (simp add: mock_env_def mock_response_def)

lemma GetResultSet_page:
  assumes "\<forall>url. NewRequest_error e ''GET'' url = None"
      and "\<forall>req. httpClient_Do e (length (issued w)) (client job) req = Inr resp"
      and "resp_StatusCode resp < 400"
      and "body_err (resp_Body resp) = None"
  shows "fst (GetResultSet e job locator w) =
           Inr \<lparr>rs_Body = body_data (resp_Body resp),
                rs_Next = resp_Header_Get resp ''Sforce-Locator'',
                rs_Rows = fst (Atoi (resp_Header_Get resp ''Sforce-NumberOfRecords''))\<rparr>"
  using assms by (simp add: GetResultSet_def NewRequest_def Let_def)

lemma Atoi_empty: "Atoi [] = (0, Some ErrSyntax)"
  by (simp add: Atoi_def ParseInt_def)

lemma Atoi_syntax_error_zero:
  "snd (Atoi s) = Some ErrSyntax \<Longrightarrow> fst (Atoi s) = 0"
  by (auto simp: Atoi_def ParseInt_def Let_def split: if_splits option.splits prod.splits)

lemma Atoi_example: "Atoi ''42'' = (42, None)"
  by code_simp

text \<open>
  C9. The claim is that \<open>Rows\<close> is the integer parse of the header
  \<open>Sforce-NumberOfRecords\<close>, and 0 when the header is missing or cannot be parsed.
  \<open>GetResultSet_page\<close> shows that a page carries the first result of \<open>Atoi\<close> on that
  header and the header \<open>Sforce-Locator\<close> as \<open>Next\<close>, and \<open>Atoi_empty\<close> and
  \<open>Atoi_syntax_error_zero\<close> that a missing or syntactically wrong header gives 0.
  But \<open>GetResultSet\<close> drops the error of \<open>Atoi\<close> and keeps its number, and for a
  header of digits that does not fit an \<open>int\<close> that number is not 0: \<open>Atoi\<close> reports a
  range error and returns the largest \<open>int\<close>, which becomes \<open>Rows\<close>.
\<close>

theorem rows_clamped_on_range_error:
  "Atoi ''9223372036854775808'' = (9223372036854775807, Some ErrRange)
   \<and> fst (GetResultSet
            (mock_env (\<lambda>n. Inl ''unused'')
               (\<lambda>n. Inr (mock_response 200 ''200 OK''
                            [(''Sforce-NumberOfRecords'', ''9223372036854775808''),
                             (''Sforce-Locator'', ''tok123'')] ''a,b'')))
            mock_job [] fresh_world)
       = Inr \<lparr>rs_Body = ''a,b'', rs_Next = ''tok123'', rs_Rows = 9223372036854775807\<rparr>"
  by code_simp

section \<open>Properties of the timestamp codec\<close>

lemma byte_sub_digit:
  assumes "is_digit c"
  shows "byte_sub c 48 = of_char c - 48" and "byte_sub c 48 \<le> 9"
proof -
  define n :: nat where "n = of_char c"
  from assms have n: "48 \<le> n" "n \<le> 57"
    by (simp_all add: is_digit_def n_def)
  from n(1) obtain k where k: "n = 48 + k"
    using le_Suc_ex by blast
  with n(2) have "k < 256"
    by simp
  then have "(n + 256 - 48) mod 256 = n - 48"
    by (simp add: k)
  then show "byte_sub c 48 = of_char c - 48"
    by (simp add: byte_sub_def n_def)
  with n show "byte_sub c 48 \<le> 9"
    by (simp add: n_def)
qed

lemma is_digit_val: "is_digit c \<Longrightarrow> 0 \<le> digit_val c \<and> digit_val c \<le> 9"
  using byte_sub_digit(2) [of c] by (simp add: digit_val_def)

lemma is_digit_not_mark:
  "is_digit c \<Longrightarrow> c \<noteq> CHR ''-'' \<and> c \<noteq> CHR ''+'' \<and> c \<noteq> CHR '':'' \<and> c \<noteq> CHR ''Z''"
  by (auto simp: is_digit_def)

lemma is_digit_zero: "is_digit (CHR ''0'')" "digit_val (CHR ''0'') = 0"
  by (simp_all add: is_digit_def digit_val_def byte_sub_def)

lemma getnum_two:
  "is_digit a \<Longrightarrow> is_digit b \<Longrightarrow> getnum (a # b # r) fx = (num2 a b, r, False)"
  by (simp add: getnum_def isDigit_def num2_def)

lemma getnum_fixed_ok:
  assumes "getnum s True = (n, r, False)"
  shows "\<exists>a b. s = a # b # r \<and> is_digit a \<and> is_digit b \<and> n = num2 a b"
proof -
  from assms have d: "isDigit s 0" "isDigit s 1"
    by (auto simp: getnum_def split: if_splits)
  then obtain a b r' where s: "s = a # b # r'"
    by (cases s; cases "tl s") (auto simp: isDigit_def)
  with d assms show ?thesis
    by (auto simp: getnum_def isDigit_def num2_def)
qed

lemma atoi_four:
  assumes "is_digit a" "is_digit b" "is_digit c" "is_digit d"
  shows "atoi [a, b, c, d] = (num4 a b c d, False)"
  using assms is_digit_val [of a] is_digit_val [of b] is_digit_val [of c] is_digit_val [of d]
    is_digit_not_mark [of a]
  by (simp add: atoi_def num4_def)

lemma atoi_three:
  assumes "is_digit a" "is_digit b" "is_digit c"
  shows "atoi [a, b, c] = (num3 a b c, False)"
  using assms is_digit_val [of a] is_digit_val [of b] is_digit_val [of c]
    is_digit_not_mark [of a]
  by (simp add: atoi_def num3_def)


subsection \<open>What the parser accepts\<close>

lemma getnum_suffix: "getnum s fx = (n, r, e) \<Longrightarrow> suffix r s"
  by (auto simp: getnum_def suffix_drop split: if_splits)

lemma skip_suffix: "skip v p = (v', bad) \<Longrightarrow> suffix v' v"
proof (induction v p arbitrary: v' bad rule: skip.induct)
  case (1 v)
  then show ?case by simp
next
  case (2 v c p)
  show ?case
  proof (cases "c = CHR '' ''")
    case True
    show ?thesis
    proof (cases "v \<noteq> [] \<and> hd v \<noteq> CHR '' ''")
      case True
      with \<open>c = CHR '' ''\<close> "2.prems" show ?thesis by simp
    next
      case False
      with \<open>c = CHR '' ''\<close> "2.prems" "2.IH"(1) [of v' bad]
      have "suffix v' (dropWhile (\<lambda>c. c = CHR '' '') v)"
        by auto
      then show ?thesis
        using suffix_dropWhile suffix_order.trans by blast
    qed
  next
    case False
    show ?thesis
    proof (cases "v = [] \<or> hd v \<noteq> c")
      case True
      with False "2.prems" show ?thesis by auto
    next
      case stepc: False
      with False "2.prems" "2.IH"(2) [of v' bad] have "suffix v' (tl v)"
        by auto
      then show ?thesis
        using stepc by (metis suffix_order.trans suffix_tl)
    qed
  qed
qed

lemma parse_std_suffix:
  "parse_std std st v = (st', v', r, e, h) \<Longrightarrow> suffix v' v"
  by (cases std)
     (auto simp: Let_def suffix_drop split: if_splits prod.splits dest: getnum_suffix)

lemma parse_chunks_suffix:
  "parse_chunks av cs st v = Inr (st', v') \<Longrightarrow> suffix v' v"
proof (induction cs arbitrary: st v)
  case Nil
  then show ?case by simp
next
  case (Cons c cs)
  obtain pfx std stdstr where c: "c = (pfx, std, stdstr)"
    by (cases c) auto
  obtain v1 bad where sk: "skip v pfx = (v1, bad)"
    by (cases "skip v pfx") auto
  obtain st1 v2 r e h where ps: "parse_std std st v1 = (st1, v2, r, e, h)"
    by (cases "parse_std std st v1") auto
  from Cons.prems c sk ps have "parse_chunks av cs st1 v2 = Inr (st', v')"
    by (auto split: if_splits)
  then have "suffix v' v2"
    by (rule Cons.IH)
  moreover have "suffix v2 v1"
    using ps by (rule parse_std_suffix)
  moreover have "suffix v1 v"
    using sk by (rule skip_suffix)
  ultimately show ?case
    using suffix_order.trans by blast
qed

lemma parse_chunks_append:
  "parse_chunks av (cs @ ds) st v =
     (case parse_chunks av cs st v of
        Inl err \<Rightarrow> Inl err
      | Inr (st', v') \<Rightarrow> parse_chunks av ds st' v')"
  by (induction cs arbitrary: st v) (auto simp: Let_def split: prod.splits)

lemma parse_chunks_error:
  "parse_chunks av cs st v = Inl err \<Longrightarrow> \<exists>le ve m. err = TimeParseError layout av le ve m"
  by (induction cs arbitrary: st v) (auto simp: Let_def split: prod.splits if_splits)

lemma time_Parse_error:
  "time_Parse b = Inl err \<Longrightarrow> \<exists>le ve m. err = TimeParseError layout b le ve m"
  by (auto simp: time_Parse_def Let_def split: sum.splits prod.splits if_splits
           dest: parse_chunks_error)

lemma numTZ_accepts:
  assumes "parse_std stdNumTZ st v = (st', v', [], False, h)"
  shows "\<exists>sg a b c d. v = sg # a # b # c # d # v' \<and> (sg = CHR ''+'' \<or> sg = CHR ''-'')
           \<and> is_digit a \<and> is_digit b \<and> is_digit c \<and> is_digit d"
proof -
  from assms have len: "5 \<le> length v"
    by (auto split: if_splits)
  then obtain sg a b c d r where v: "v = sg # a # b # c # d # r"
    by (cases v; cases "tl v"; cases "tl (tl v)"; cases "tl (tl (tl v))";
        cases "tl (tl (tl (tl v)))") auto
  obtain hr r1 e1 where g1: "getnum [a, b] True = (hr, r1, e1)"
    by (cases "getnum [a, b] True") auto
  obtain mm r2 e2 where g2: "getnum [c, d] True = (mm, r2, e2)"
    by (cases "getnum [c, d] True") auto
  from assms v g1 g2 have ok: "\<not> e1" "\<not> e2" "sg = CHR ''+'' \<or> sg = CHR ''-''" "v' = r"
    by (auto simp: Let_def split: if_splits prod.splits)
  from g1 ok(1) have "is_digit a \<and> is_digit b"
    using getnum_fixed_ok [of "[a, b]" hr r1] by auto
  moreover from g2 ok(2) have "is_digit c \<and> is_digit d"
    using getnum_fixed_ok [of "[c, d]" mm r2] by auto
  ultimately show ?thesis
    using v ok by simp
qed

lemma layout_chunks_split:
  "layout_chunks = butlast layout_chunks @ [([], stdNumTZ, ''-0700'')]"
  by (simp add: layout_chunks_def)

lemma time_Parse_accepts:
  assumes "time_Parse b = Inr t"
  shows "\<exists>p sg a1 a2 a3 a4. b = p @ [sg, a1, a2, a3, a4, CHR 0x22]
           \<and> (sg = CHR ''+'' \<or> sg = CHR ''-'')
           \<and> is_digit a1 \<and> is_digit a2 \<and> is_digit a3 \<and> is_digit a4"
proof -
  from assms obtain st v where all: "parse_chunks b layout_chunks parse_init b = Inr (st, v)"
    and tail: "skip v layout_tail = ([], False)"
    by (auto simp: time_Parse_def Let_def split: sum.splits prod.splits if_splits)
  from tail have v: "v = [CHR 0x22]"
    by (cases v) (auto simp: layout_tail_def split: if_splits)
  from all obtain st7 v7 where
    front: "parse_chunks b (butlast layout_chunks) parse_init b = Inr (st7, v7)"
    and last: "parse_chunks b [([], stdNumTZ, ''-0700'')] st7 v7 = Inr (st, v)"
    by (subst (asm) layout_chunks_split)
       (auto simp only: parse_chunks_append split: sum.splits prod.splits)
  obtain st8 v8 r e h where tz: "parse_std stdNumTZ st7 v7 = (st8, v8, r, e, h)"
    by (cases "parse_std stdNumTZ st7 v7") auto
  with last have "r = []" "\<not> e" "v8 = v"
    by (auto simp: Let_def split: if_splits)
  with tz numTZ_accepts [of st7 v7 st8 v8 h] v obtain sg a1 a2 a3 a4 where
    v7: "v7 = [sg, a1, a2, a3, a4, CHR 0x22]" and
    ok: "sg = CHR ''+'' \<or> sg = CHR ''-''" "is_digit a1" "is_digit a2" "is_digit a3" "is_digit a4"
    by auto
  from front have "suffix v7 b"
    by (rule parse_chunks_suffix)
  then obtain p where "b = p @ v7"
    by (auto simp: suffix_def)
  with v7 ok show ?thesis
    by blast
qed

lemma num2_zeros: "num2 (CHR ''0'') (CHR ''0'') = 0"
  by (simp add: num2_def is_digit_zero)

lemma num2_nonneg: "is_digit a \<Longrightarrow> is_digit b \<Longrightarrow> 0 \<le> num2 a b"
  using is_digit_val [of a] is_digit_val [of b] by (simp add: num2_def)

lemma accepted_tail:
  assumes "time_Parse b = Inr t"
  shows "is_digit (last (butlast b))"
    and "is_digit (last (butlast (butlast (butlast b))))"
  using time_Parse_accepts [OF assms] by (auto simp: butlast_append)

lemma numeric_offset_parses:
  assumes digits: "list_all is_digit [y1, y2, y3, y4, mo1, mo2, d1, d2, h1, h2, mi1, mi2,
                                      s1, s2, f1, f2, f3, zh1, zh2, zm1, zm2]"
      and sign: "sg = CHR ''+'' \<or> sg = CHR ''-''"
      and month: "1 \<le> num2 mo1 mo2" "num2 mo1 mo2 \<le> 12"
      and day: "1 \<le> num2 d1 d2" "num2 d1 d2 \<le> daysIn (num2 mo1 mo2) (num4 y1 y2 y3 y4)"
      and clock: "num2 h1 h2 < 24" "num2 mi1 mi2 < 60" "num2 s1 s2 < 60"
      and zone: "num2 zh1 zh2 \<le> 24" "num2 zm1 zm2 \<le> 60"
  shows "time_Parse (quoted ([y1, y2, y3, y4] @ ''-'' @ [mo1, mo2] @ ''-'' @ [d1, d2] @ ''T''
                       @ [h1, h2] @ '':'' @ [mi1, mi2] @ '':'' @ [s1, s2] @ ''.''
                       @ [f1, f2, f3] @ [sg, zh1, zh2, zm1, zm2]))
         = Inr (at_offset (Date (num4 y1 y2 y3 y4) (num2 mo1 mo2) (num2 d1 d2)
                             (num2 h1 h2) (num2 mi1 mi2) (num2 s1 s2)
                             (num3 f1 f2 f3 * 1000000))
                  (numeric_offset sg zh1 zh2 zm1 zm2))"
proof -
  have ns: "0 \<le> num3 f1 f2 f3"
    using digits is_digit_val [of f1] is_digit_val [of f2] is_digit_val [of f3]
    by (simp add: num3_def)
  have nn: "0 \<le> num2 h1 h2" "0 \<le> num2 mi1 mi2" "0 \<le> num2 s1 s2"
    using digits by (simp_all add: num2_nonneg)
  have "60 dvd (num2 zh1 zh2 * 60 + num2 zm1 zm2) * 60"
    by simp
  moreover have "\<not> 60 dvd (1 :: int)" "\<not> 60 dvd (- 1 :: int)"
    by simp_all
  ultimately have zo: "(num2 zh1 zh2 * 60 + num2 zm1 zm2) * 60 \<noteq> 1"
    "(num2 zh1 zh2 * 60 + num2 zm1 zm2) * 60 \<noteq> - 1"
    by metis+
  show ?thesis
    using assms ns nn zo
    by (elim disjE)
       (simp_all add: quoted_def time_Parse_def layout_chunks_def layout_tail_def parse_init_def
          isDigit_def getnum_two atoi_four atoi_three parseNanoseconds_def commaOrPeriod_def
          is_digit_zero num2_zeros at_offset_def numeric_offset_def Let_def)
qed

lemma Z_example:
  "time_Parse (quoted ''2023-12-02T02:30:02.000Z'')
     = Inl (TimeParseError layout (quoted ''2023-12-02T02:30:02.000Z'') ''-0700''
              (''Z'' @ [CHR 0x22]) NoMessage)"
  by code_simp

lemma colon_example:
  "time_Parse (quoted ''2023-12-02T02:30:02.000+00:00'')
     = Inl (TimeParseError layout (quoted ''2023-12-02T02:30:02.000+00:00'') ''-0700''
              (''+00:00'' @ [CHR 0x22]) NoMessage)"
  by code_simp

lemma leap_second_example:
  "time_Parse (quoted ''2016-12-31T23:59:60.000+0000'')
     = Inl (TimeParseError layout (quoted ''2016-12-31T23:59:60.000+0000'') ''05''
              (''.000+0000'' @ [CHR 0x22]) (OutOfRange ''second''))"
  by code_simp

lemma test_example:
  "time_Parse (quoted ''2023-12-02T02:30:02.000+0000'') = Inr (Date 2023 12 2 2 30 2 0)"
  by code_simp

lemma test_instant:
  "Date 2023 12 2 2 30 2 0 = \<lparr>t_sec = 63837081002, t_nsec = 0, t_offset = 0\<rparr>"
  by code_simp

lemma quoted_not_null: "quoted s \<noteq> ''null''"
  by (simp add: quoted_def)

lemma snoc_quote_not_null: "p @ [c, CHR 0x22] \<noteq> ''null''"
proof
  assume "p @ [c, CHR 0x22] = ''null''"
  then have "last (p @ [c, CHR 0x22]) = last ''null''"
    by (rule arg_cong)
  then show False
    by simp
qed

text \<open>
  C4. An input that ends in \<open>Z\<close> and the closing quote, or in a colon, two more
  characters and the closing quote (the shape of \<open>+hh:mm\<close>), is never accepted, whatever
  comes before: \<open>UnmarshalJSON\<close> leaves the receiver as it was and returns a
  \<open>*time.ParseError\<close> that names the layout and the value. For the two inputs of the
  specification the error says which part did not fit: the layout element \<open>-0700\<close>
  against the rest of the value, \<open>Z"\<close> or \<open>+00:00"\<close>.
\<close>

theorem colon_or_Z_offset_rejected:
  "(\<exists>le ve m. UnmarshalJSON t (p @ [CHR ''Z'', CHR 0x22])
                = (t, Some (TimeParseError layout (p @ [CHR ''Z'', CHR 0x22]) le ve m)))
   \<and> (\<exists>le ve m. UnmarshalJSON t (p @ [CHR '':'', m1, m2, CHR 0x22])
                = (t, Some (TimeParseError layout (p @ [CHR '':'', m1, m2, CHR 0x22]) le ve m)))
   \<and> UnmarshalJSON t (quoted ''2023-12-02T02:30:02.000Z'')
       = (t, Some (TimeParseError layout (quoted ''2023-12-02T02:30:02.000Z'') ''-0700''
                     (''Z'' @ [CHR 0x22]) NoMessage))
   \<and> UnmarshalJSON t (quoted ''2023-12-02T02:30:02.000+00:00'')
       = (t, Some (TimeParseError layout (quoted ''2023-12-02T02:30:02.000+00:00'') ''-0700''
                     (''+00:00'' @ [CHR 0x22]) NoMessage))"
proof -
  have rejected: "\<exists>le ve m. UnmarshalJSON t b = (t, Some (TimeParseError layout b le ve m))"
    if "b \<noteq> ''null''" and "\<And>tt. time_Parse b \<noteq> Inr tt" for b
  proof (cases "time_Parse b")
    case (Inl err)
    with time_Parse_error [of b err] that(1) show ?thesis
      by (auto simp: UnmarshalJSON_def)
  next
    case (Inr tt)
    with that(2) [of tt] show ?thesis by blast
  qed
  have z: "time_Parse (p @ [CHR ''Z'', CHR 0x22]) \<noteq> Inr tt" for tt
    using accepted_tail(1) [of "p @ [CHR ''Z'', CHR 0x22]" tt] is_digit_not_mark [of "CHR ''Z''"]
    by (auto simp: butlast_append)
  have colon: "time_Parse (p @ [CHR '':'', m1, m2, CHR 0x22]) \<noteq> Inr tt" for tt
    using accepted_tail(2) [of "p @ [CHR '':'', m1, m2, CHR 0x22]" tt]
      is_digit_not_mark [of "CHR '':''"]
    by (auto simp: butlast_append)
  have nn1: "p @ [CHR ''Z'', CHR 0x22] \<noteq> ''null''"
    by (rule snoc_quote_not_null)
  have nn2: "p @ [CHR '':'', m1, m2, CHR 0x22] \<noteq> ''null''"
    using snoc_quote_not_null [of "p @ [CHR '':'', m1]" m2] by simp
  show ?thesis
    using rejected [OF nn1 z] rejected [OF nn2 colon]
    by (simp add: UnmarshalJSON_def quoted_not_null Z_example colon_example)
qed

theorem colon_or_Z_offset_rejected_witness:
  "UnmarshalJSON \<lparr>Time = zero_time\<rparr> (quoted ''2023-12-02T02:30:02.000Z'')
     = (\<lparr>Time = zero_time\<rparr>,
        Some (TimeParseError layout (quoted ''2023-12-02T02:30:02.000Z'') ''-0700''
                (''Z'' @ [CHR 0x22]) NoMessage))"
  using colon_or_Z_offset_rejected [of "\<lparr>Time = zero_time\<rparr>" "[]" "CHR ''0''" "CHR ''0''"]
  by simp

text \<open>
  C5. The claim is that every quoted string of the shape \<open>YYYY-MM-DDThh:mm:ss.sss\<plusminus>hhmm\<close>
  decodes without error. The input of the package's test does, to the instant
  2023-12-02T02:30:02 UTC. But \<open>time.Parse\<close> checks the ranges of the fields, so a string
  of that shape can fail: the leap second 2016-12-31T23:59:60 is refused with
  "second out of range".
\<close>

theorem leap_second_refused:
  "UnmarshalJSON \<lparr>Time = zero_time\<rparr> (quoted ''2016-12-31T23:59:60.000+0000'')
     = (\<lparr>Time = zero_time\<rparr>,
        Some (TimeParseError layout (quoted ''2016-12-31T23:59:60.000+0000'') ''05''
                (''.000+0000'' @ [CHR 0x22]) (OutOfRange ''second'')))"
  by (simp add: UnmarshalJSON_def quoted_not_null leap_second_example)

text \<open>
  C5, as amended. The input \<open>"2023-12-02T02:30:02.000+0000"\<close> decodes, with no error, to
  the instant \<open>time.Date(2023, 12, 2, 2, 30, 2, 0, time.UTC)\<close> (the two are \<open>Equal\<close>, as
  the package's test asks), which is second 1701484202 of the Unix era. Every quoted string of the shape whose digits are digits,
  whose sign is \<open>+\<close> or \<open>-\<close> and whose fields are in the ranges \<open>time.Parse\<close> accepts
  (month 1 to 12, day 1 to the length of that month in that year, hour below 24, minute
  and second below 60, offset hours at most 24 and offset minutes at most 60) decodes,
  with no error, to the instant that \<open>time.Date\<close> gives for the fields, moved by the
  offset.
\<close>

theorem UnmarshalJSON_numeric_offset:
  "UnmarshalJSON t (quoted ''2023-12-02T02:30:02.000+0000'')
     = (\<lparr>Time = Date 2023 12 2 2 30 2 0\<rparr>, None)
   \<and> Equal (Time (fst (UnmarshalJSON t (quoted ''2023-12-02T02:30:02.000+0000''))))
         (Date 2023 12 2 2 30 2 0)
   \<and> Unix (Date 2023 12 2 2 30 2 0) = 1701484202
   \<and> (list_all is_digit [y1, y2, y3, y4, mo1, mo2, d1, d2, h1, h2, mi1, mi2,
                          s1, s2, f1, f2, f3, zh1, zh2, zm1, zm2]
        \<and> (sg = CHR ''+'' \<or> sg = CHR ''-'')
        \<and> 1 \<le> num2 mo1 mo2 \<and> num2 mo1 mo2 \<le> 12
        \<and> 1 \<le> num2 d1 d2 \<and> num2 d1 d2 \<le> daysIn (num2 mo1 mo2) (num4 y1 y2 y3 y4)
        \<and> num2 h1 h2 < 24 \<and> num2 mi1 mi2 < 60 \<and> num2 s1 s2 < 60
        \<and> num2 zh1 zh2 \<le> 24 \<and> num2 zm1 zm2 \<le> 60
      \<longrightarrow> UnmarshalJSON t
            (quoted ([y1, y2, y3, y4] @ ''-'' @ [mo1, mo2] @ ''-'' @ [d1, d2] @ ''T''
                       @ [h1, h2] @ '':'' @ [mi1, mi2] @ '':'' @ [s1, s2] @ ''.''
                       @ [f1, f2, f3] @ [sg, zh1, zh2, zm1, zm2]))
          = (\<lparr>Time = at_offset (Date (num4 y1 y2 y3 y4) (num2 mo1 mo2) (num2 d1 d2)
                                  (num2 h1 h2) (num2 mi1 mi2) (num2 s1 s2)
                                  (num3 f1 f2 f3 * 1000000))
                       (numeric_offset sg zh1 zh2 zm1 zm2)\<rparr>, None))"
proof -
  have "Unix (Date 2023 12 2 2 30 2 0) = 1701484202"
    by (simp add: test_instant Unix_def)
  moreover have test: "UnmarshalJSON t (quoted ''2023-12-02T02:30:02.000+0000'')
                   = (\<lparr>Time = Date 2023 12 2 2 30 2 0\<rparr>, None)"
    by (simp add: UnmarshalJSON_def quoted_not_null test_example)
  moreover have "Equal (Time (fst (UnmarshalJSON t (quoted ''2023-12-02T02:30:02.000+0000''))))
                   (Date 2023 12 2 2 30 2 0)"
    by (simp add: test Equal_def)
  moreover have "UnmarshalJSON t (quoted s) = (\<lparr>Time = tt\<rparr>, None)"
    if "time_Parse (quoted s) = Inr tt" for s tt
    using that by (simp add: UnmarshalJSON_def quoted_not_null)
  ultimately show ?thesis
    using numeric_offset_parses [of y1 y2 y3 y4 mo1 mo2 d1 d2 h1 h2 mi1 mi2 s1 s2 f1 f2 f3
                                    zh1 zh2 zm1 zm2 sg]
    by blast
qed

lemma leap_day_instant:
  "Date 2024 2 29 23 59 59 999000000
     = \<lparr>t_sec = 63844847999, t_nsec = 999000000, t_offset = 0\<rparr>"
  by code_simp

theorem UnmarshalJSON_numeric_offset_witness:
  "UnmarshalJSON \<lparr>Time = zero_time\<rparr> (quoted ''2024-02-29T23:59:59.999-0830'')
     = (\<lparr>Time = \<lparr>t_sec = 63844878599, t_nsec = 999000000, t_offset = - 30600\<rparr>\<rparr>, None)"
  using UnmarshalJSON_numeric_offset
          [of "\<lparr>Time = zero_time\<rparr>"
              "CHR ''2''" "CHR ''0''" "CHR ''2''" "CHR ''4''" "CHR ''0''" "CHR ''2''"
              "CHR ''2''" "CHR ''9''" "CHR ''2''" "CHR ''3''" "CHR ''5''" "CHR ''9''"
              "CHR ''5''" "CHR ''9''" "CHR ''9''" "CHR ''9''" "CHR ''9''"
              "CHR ''0''" "CHR ''8''" "CHR ''3''" "CHR ''0''" "CHR ''-''"]
  by (simp add: is_digit_def num2_def num3_def num4_def digit_val_def byte_sub_def
        daysIn_def isLeap_def leap_day_instant at_offset_def numeric_offset_def)

text \<open>
  C6. The claim is that the JSON null literal produces the zero-value instant for every
  receiver. On \<open>null\<close> the method returns before it touches the receiver, so a receiver
  that holds an instant keeps it: after \<open>null\<close> the receiver below still holds
  2023-12-02T02:30:02 UTC, which is not the zero value.
\<close>

theorem null_keeps_receiver_value:
  "UnmarshalJSON \<lparr>Time = Date 2023 12 2 2 30 2 0\<rparr> ''null''
     = (\<lparr>Time = Date 2023 12 2 2 30 2 0\<rparr>, None)
   \<and> fst (UnmarshalJSON \<lparr>Time = Date 2023 12 2 2 30 2 0\<rparr> ''null'') \<noteq> \<lparr>Time = zero_time\<rparr>"
  by (simp add: UnmarshalJSON_def test_instant zero_time_def)

text \<open>
  C6, as amended. On the JSON null literal \<open>UnmarshalJSON\<close> reports no error and leaves
  the receiver as it is; a receiver that holds the zero value, as a freshly declared one
  does, holds the zero value afterwards.
\<close>

theorem null_is_no_op:
  "UnmarshalJSON t ''null'' = (t, None)
   \<and> UnmarshalJSON \<lparr>Time = zero_time\<rparr> ''null'' = (\<lparr>Time = zero_time\<rparr>, None)"
  by (simp add: UnmarshalJSON_def)

theorem null_is_no_op_witness:
  "UnmarshalJSON \<lparr>Time = Date 1970 1 1 0 0 0 0\<rparr> ''null''
     = (\<lparr>Time = Date 1970 1 1 0 0 0 0\<rparr>, None)"
  using null_is_no_op [of "\<lparr>Time = Date 1970 1 1 0 0 0 0\<rparr>"] by simp

text \<open>
  C10. \<open>UnmarshalJSON\<close> assigns to its receiver on one path only, after \<open>time.Parse\<close>
  has succeeded. On \<open>null\<close> it returns nil and the receiver is unchanged; when
  \<open>time.Parse\<close> fails it returns that error and the receiver is unchanged; when
  \<open>time.Parse\<close> succeeds the receiver holds the parsed instant. So a receiver that has
  changed tells that the input was parsed, and an error tells that the receiver has not
  changed.
\<close>

theorem UnmarshalJSON_writes_only_on_success:
  "(b = ''null'' \<longrightarrow> UnmarshalJSON t b = (t, None))
   \<and> (\<forall>err. b \<noteq> ''null'' \<and> time_Parse b = Inl err \<longrightarrow> UnmarshalJSON t b = (t, Some err))
   \<and> (\<forall>tt. b \<noteq> ''null'' \<and> time_Parse b = Inr tt
         \<longrightarrow> UnmarshalJSON t b = (\<lparr>Time = tt\<rparr>, None))
   \<and> (fst (UnmarshalJSON t b) \<noteq> t \<longrightarrow> b \<noteq> ''null'' \<and> (\<exists>tt. time_Parse b = Inr tt))
   \<and> (snd (UnmarshalJSON t b) \<noteq> None \<longrightarrow> fst (UnmarshalJSON t b) = t)"
  by (auto simp: UnmarshalJSON_def split: sum.splits)

theorem UnmarshalJSON_writes_only_on_success_witness:
  "UnmarshalJSON \<lparr>Time = Date 1970 1 1 0 0 0 0\<rparr> ''null''
     = (\<lparr>Time = Date 1970 1 1 0 0 0 0\<rparr>, None)
   \<and> UnmarshalJSON \<lparr>Time = Date 1970 1 1 0 0 0 0\<rparr> (quoted ''2023-12-02T02:30:02.000Z'')
     = (\<lparr>Time = Date 1970 1 1 0 0 0 0\<rparr>,
        Some (TimeParseError layout (quoted ''2023-12-02T02:30:02.000Z'') ''-0700''
                (''Z'' @ [CHR 0x22]) NoMessage))
   \<and> UnmarshalJSON \<lparr>Time = Date 1970 1 1 0 0 0 0\<rparr> (quoted ''2023-12-02T02:30:02.000+0000'')
     = (\<lparr>Time = Date 2023 12 2 2 30 2 0\<rparr>, None)"
  using UnmarshalJSON_writes_only_on_success [of "''null''" "\<lparr>Time = Date 1970 1 1 0 0 0 0\<rparr>"]
        UnmarshalJSON_writes_only_on_success
          [of "quoted ''2023-12-02T02:30:02.000Z''" "\<lparr>Time = Date 1970 1 1 0 0 0 0\<rparr>"]
        UnmarshalJSON_writes_only_on_success
          [of "quoted ''2023-12-02T02:30:02.000+0000''" "\<lparr>Time = Date 1970 1 1 0 0 0 0\<rparr>"]
        quoted_not_null Z_example test_example
  by simp

end
